theory Spec2Isabelle
  imports Main
begin

section \<open>Python values\<close>

text \<open>
  An instance of \<^verbatim>\<open>Exception\<close>: its class name, the names of the other classes it is an
  instance of, and what \<^verbatim>\<open>str(e)\<close> gives. Signals that derive from \<^verbatim>\<open>BaseException\<close>
  only (\<^verbatim>\<open>KeyboardInterrupt\<close>, \<^verbatim>\<open>SystemExit\<close>) are not of this type: \<^verbatim>\<open>except Exception\<close>
  does not handle them.
\<close>

datatype py_exception = PyExc (exc_class: string) (exc_bases: "string list") (exc_str: string)

definition is_instance :: "py_exception \<Rightarrow> string \<Rightarrow> bool" where
  "is_instance e c = (c = exc_class e \<or> c \<in> set (exc_bases e))"

text \<open>
  The wrapper of \<^verbatim>\<open>agentbay/llms/gemini/chat.py\<close> is duck-typed: it probes its receiver,
  its arguments and the response with \<^verbatim>\<open>hasattr\<close>, \<^verbatim>\<open>getattr\<close>, \<^verbatim>\<open>isinstance\<close> and
  truth tests. The values are the scalars, lists, dicts with string keys (keys distinct,
  in insertion order), and objects. An object is its class name, its truth value
  (\<^verbatim>\<open>__bool__\<close>), and its attributes; an attribute holds a value, or is a property whose
  getter raises.
\<close>

datatype pyval =
    PNone
  | PBool bool
  | PInt int
  | PStr string
  | PList "pyval list"
  | PDict "(string \<times> pyval) list"
  | PObj string bool "(string \<times> pyattr) list"
and pyattr =
    Attr pyval
  | Getter py_exception

text \<open>
  Two functions of the Python library are parameters of the model: \<open>str_other\<close> is
  \<^verbatim>\<open>str(v)\<close> for a value that is not itself a string, and \<open>json_dumps\<close> is
  \<^verbatim>\<open>json.dumps(v)\<close>. Either returns a string or raises.
\<close>

record py_lib =
  str_other :: "pyval \<Rightarrow> py_exception + string"
  json_dumps :: "pyval \<Rightarrow> py_exception + string"

fun py_str :: "py_lib \<Rightarrow> pyval \<Rightarrow> py_exception + string" where
  "py_str L (PStr s) = Inr s"
| "py_str L v = str_other L v"

fun py_truthy :: "pyval \<Rightarrow> bool" where
  "py_truthy PNone = False"
| "py_truthy (PBool b) = b"
| "py_truthy (PInt n) = (n \<noteq> 0)"
| "py_truthy (PStr s) = (s \<noteq> [])"
| "py_truthy (PList xs) = (xs \<noteq> [])"
| "py_truthy (PDict kvs) = (kvs \<noteq> [])"
| "py_truthy (PObj c truth attrs) = truth"

text \<open>
  \<^verbatim>\<open>getattr(v, a)\<close> for the attribute names the wrapper probes. \<open>Inr None\<close> is
  \<^verbatim>\<open>AttributeError\<close>: \<^verbatim>\<open>hasattr(v, a)\<close> is then false, and \<^verbatim>\<open>getattr\<close> gives its
  default. \<open>Inl e\<close> is a getter that raises another exception, which neither
  \<^verbatim>\<open>hasattr\<close> nor the default of \<^verbatim>\<open>getattr\<close> absorbs. The built-in values have none of
  the names.
\<close>

fun py_getattr :: "pyval \<Rightarrow> string \<Rightarrow> py_exception + pyval option" where
  "py_getattr (PObj c truth attrs) a =
     (case map_of attrs a of
        None \<Rightarrow> Inr None
      | Some (Attr v) \<Rightarrow> Inr (Some v)
      | Some (Getter e) \<Rightarrow> if is_instance e ''AttributeError'' then Inr None else Inl e)"
| "py_getattr v a = Inr None"

fun py_type_name :: "pyval \<Rightarrow> string" where
  "py_type_name PNone = ''NoneType''"
| "py_type_name (PBool b) = ''bool''"
| "py_type_name (PInt n) = ''int''"
| "py_type_name (PStr s) = ''str''"
| "py_type_name (PList xs) = ''list''"
| "py_type_name (PDict kvs) = ''dict''"
| "py_type_name (PObj c truth attrs) = c"

fun is_list_or_dict :: "pyval \<Rightarrow> bool" where
  "is_list_or_dict (PList xs) = True"
| "is_list_or_dict (PDict kvs) = True"
| "is_list_or_dict v = False"

definition py_quote :: "string \<Rightarrow> string" where
  "py_quote s = CHR 0x27 # s @ [CHR 0x27]"

definition type_error :: "string \<Rightarrow> py_exception" where
  "type_error msg = PyExc ''TypeError'' [''Exception''] msg"

text \<open>\<^verbatim>\<open>v[0]\<close>, \<^verbatim>\<open>for x in v\<close> and \<^verbatim>\<open>len(v)\<close>, with the errors Python raises.\<close>

fun py_index0 :: "pyval \<Rightarrow> py_exception + pyval" where
  "py_index0 (PList []) =
     Inl (PyExc ''IndexError'' [''LookupError'', ''Exception''] ''list index out of range'')"
| "py_index0 (PList (x # xs)) = Inr x"
| "py_index0 (PStr []) =
     Inl (PyExc ''IndexError'' [''LookupError'', ''Exception''] ''string index out of range'')"
| "py_index0 (PStr (c # cs)) = Inr (PStr [c])"
| "py_index0 (PDict kvs) = Inl (PyExc ''KeyError'' [''LookupError'', ''Exception''] ''0'')"
| "py_index0 v = Inl (type_error (py_quote (py_type_name v) @ '' object is not subscriptable''))"

fun py_iter :: "pyval \<Rightarrow> py_exception + pyval list" where
  "py_iter (PList xs) = Inr xs"
| "py_iter (PStr s) = Inr (map (\<lambda>c. PStr [c]) s)"
| "py_iter (PDict kvs) = Inr (map (\<lambda>kv. PStr (fst kv)) kvs)"
| "py_iter v = Inl (type_error (py_quote (py_type_name v) @ '' object is not iterable''))"

fun py_len :: "pyval \<Rightarrow> py_exception + int" where
  "py_len (PList xs) = Inr (int (length xs))"
| "py_len (PStr s) = Inr (int (length s))"
| "py_len (PDict kvs) = Inr (int (length kvs))"
| "py_len v =
     Inl (type_error (''object of type '' @ py_quote (py_type_name v) @ '' has no len()''))"

section \<open>Spans\<close>

text \<open>
  A span: its name, the attributes set on it (the value as passed to
  \<^verbatim>\<open>set_attribute\<close>), the exceptions recorded on it and its status. The tracer is the list
  of the spans that were closed, oldest first; the span is taken to be a recording one.
\<close>

datatype span_status = Unset | Ok | Error string

record span =
  span_name :: string
  span_attributes :: "string \<Rightarrow> pyval option"
  span_exceptions :: "py_exception list"
  span_status :: span_status

type_synonym tracer = "span list"

definition start_span :: "string \<Rightarrow> span" where
  "start_span n =
     \<lparr>span_name = n, span_attributes = Map.empty, span_exceptions = [], span_status = Unset\<rparr>"

definition set_attribute :: "string \<Rightarrow> pyval \<Rightarrow> span \<Rightarrow> span" where
  "set_attribute k v sp = sp\<lparr>span_attributes := (span_attributes sp)(k \<mapsto> v)\<rparr>"

definition record_exception :: "py_exception \<Rightarrow> span \<Rightarrow> span" where
  "record_exception e sp = sp\<lparr>span_exceptions := span_exceptions sp @ [e]\<rparr>"

definition set_status :: "span_status \<Rightarrow> span \<Rightarrow> span" where
  "set_status st sp = sp\<lparr>span_status := st\<rparr>"

text \<open>
  The exit of \<^verbatim>\<open>with tracer.start_as_current_span(span_name)\<close> (line 42) when an exception
  leaves the block. The call passes no flags, so the defaults of the tracing library
  apply: the exception is recorded on the span and the status is set to ERROR with the
  description \<^verbatim>\<open>"<class>: <message>"\<close>; then the span is closed and the exception
  goes on to the caller.
\<close>

definition with_exit :: "py_exception \<Rightarrow> span \<Rightarrow> span" where
  "with_exit e sp =
     set_status (Error (exc_class e @ '': '' @ exc_str e)) (record_exception e sp)"

section \<open>The wrapper of generate_content\<close>

text \<open>
  A statement of the wrapper that works on the span gives the exception that left it,
  if one did, and the span as it then was.
\<close>

type_synonym span_step = "py_exception option \<times> span"

text \<open>
  Lines 35, 40 and 42: the model name of the receiver and the span opened under it.
  Both the getter and the f-string can raise, before there is a span.
\<close>

definition open_span :: "py_lib \<Rightarrow> pyval \<Rightarrow> py_exception + pyval \<times> span" where
  "open_span L self =
     (case py_getattr self ''model_name'' of
        Inl e \<Rightarrow> Inl e
      | Inr m \<Rightarrow>
          let model = (case m of Some v \<Rightarrow> v | None \<Rightarrow> PStr ''unknown'')
          in (case py_str L model of
                Inl e \<Rightarrow> Inl e
              | Inr n \<Rightarrow> Inr (model, start_span (''gemini.chat.generate_content '' @ n))))"

text \<open>Lines 44 to 49: the request attributes that are always recorded.\<close>

definition record_request :: "py_lib \<Rightarrow> pyval \<Rightarrow> pyval \<Rightarrow> span \<Rightarrow> span_step" where
  "record_request L model contents sp =
     (let sp2 = set_attribute ''llm.request.model'' model
                  (set_attribute ''llm.system'' (PStr ''gemini'') sp)
      in case py_str L contents of
           Inl e \<Rightarrow> (Some e, sp2)
         | Inr s \<Rightarrow> (None, set_attribute ''llm.request.messages'' (PStr s) sp2))"

text \<open>
  \<^verbatim>\<open>try: json.dumps(v) except (TypeError, ValueError): str(v)\<close>, as lines 53 to 57,
  83 to 87 and 99 to 103 have it: an exception of another class is not handled, and
  the \<^verbatim>\<open>str\<close> of the handler can raise too.
\<close>

definition serialization_error :: "py_exception \<Rightarrow> bool" where
  "serialization_error e = (is_instance e ''TypeError'' \<or> is_instance e ''ValueError'')"

definition dumps_or_str :: "py_lib \<Rightarrow> pyval \<Rightarrow> py_exception + string" where
  "dumps_or_str L v =
     (case json_dumps L v of
        Inr s \<Rightarrow> Inr s
      | Inl e \<Rightarrow> if serialization_error e then py_str L v else Inl e)"

text \<open>
  Lines 52 to 60: the tools, when the value is truthy. For a value that is neither a
  list nor a dict the \<^verbatim>\<open>try\<close> of line 54 already calls \<^verbatim>\<open>str\<close>, and the handler calls
  it again.
\<close>

definition tools_str :: "py_lib \<Rightarrow> pyval \<Rightarrow> py_exception + string" where
  "tools_str L tools = (if is_list_or_dict tools then dumps_or_str L tools else py_str L tools)"

definition record_tools :: "py_lib \<Rightarrow> pyval \<Rightarrow> span \<Rightarrow> span_step" where
  "record_tools L tools sp =
     (if py_truthy tools then
        (case tools_str L tools of
           Inl e \<Rightarrow> (Some e, sp)
         | Inr s \<Rightarrow>
             let sp1 = set_attribute ''llm.request.tools'' (PStr s) sp
             in (None, case tools of
                         PList xs \<Rightarrow>
                           set_attribute ''llm.request.tool_count'' (PInt (int (length xs))) sp1
                       | _ \<Rightarrow> sp1))
      else (None, sp))"

text \<open>Lines 36, 37 and 44 to 60: what is recorded before the original is called.\<close>

definition request_span :: "py_lib \<Rightarrow> pyval \<Rightarrow> pyval list \<Rightarrow> (string \<Rightarrow> pyval option) \<Rightarrow> span
    \<Rightarrow> span_step" where
  "request_span L model args kwargs sp =
     (let contents = (case args of
                        a # rest \<Rightarrow> a
                      | [] \<Rightarrow> (case kwargs ''contents'' of Some c \<Rightarrow> c | None \<Rightarrow> PList []));
          tools = (case kwargs ''tools'' of Some t \<Rightarrow> t | None \<Rightarrow> PList [])
      in case record_request L model contents sp of
           (Some e, sp1) \<Rightarrow> (Some e, sp1)
         | (None, sp1) \<Rightarrow> record_tools L tools sp1)"

text \<open>Lines 66 and 67: the text of the response.\<close>

definition record_text :: "py_lib \<Rightarrow> pyval \<Rightarrow> span \<Rightarrow> span_step" where
  "record_text L response sp =
     (case py_getattr response ''text'' of
        Inl e \<Rightarrow> (Some e, sp)
      | Inr None \<Rightarrow> (None, sp)
      | Inr (Some t) \<Rightarrow>
          if py_truthy t then
            (case py_str L t of
               Inl e \<Rightarrow> (Some e, sp)
             | Inr s \<Rightarrow> (None, set_attribute ''llm.response.content'' (PStr s) sp))
          else (None, sp))"

text \<open>Lines 76 to 96: the dict built for one function call.\<close>

definition func_arguments :: "py_lib \<Rightarrow> pyval \<Rightarrow> py_exception + pyval" where
  "func_arguments L func_call =
     (case py_getattr func_call ''arguments'' of
        Inl e \<Rightarrow> Inl e
      | Inr None \<Rightarrow> Inr PNone
      | Inr (Some arguments) \<Rightarrow>
          if arguments \<noteq> PNone then
            (case (if is_list_or_dict arguments then dumps_or_str L arguments
                   else py_str L arguments) of
               Inl e \<Rightarrow> Inl e
             | Inr s \<Rightarrow> Inr (PStr s))
          else Inr PNone)"

definition func_optional :: "py_lib \<Rightarrow> pyval \<Rightarrow> string \<Rightarrow> py_exception + (string \<times> pyval) list" where
  "func_optional L func_call a =
     (case py_getattr func_call a of
        Inl e \<Rightarrow> Inl e
      | Inr None \<Rightarrow> Inr []
      | Inr (Some v) \<Rightarrow>
          if py_truthy v then
            (case py_str L v of Inl e \<Rightarrow> Inl e | Inr s \<Rightarrow> Inr [(a, PStr s)])
          else Inr [])"

definition func_data :: "py_lib \<Rightarrow> pyval \<Rightarrow> py_exception + (string \<times> pyval) list" where
  "func_data L func_call =
     (case py_getattr func_call ''name'' of
        Inl e \<Rightarrow> Inl e
      | Inr n \<Rightarrow>
          (case func_arguments L func_call of
             Inl e \<Rightarrow> Inl e
           | Inr a \<Rightarrow>
               (case func_optional L func_call ''response'' of
                  Inl e \<Rightarrow> Inl e
                | Inr rs \<Rightarrow>
                    (case func_optional L func_call ''error'' of
                       Inl e \<Rightarrow> Inl e
                     | Inr es \<Rightarrow>
                         Inr ([(''name'', case n of Some v \<Rightarrow> v | None \<Rightarrow> PNone),
                               (''arguments'', a)] @ rs @ es)))))"

text \<open>Lines 74 to 97: the loop over the function calls; the first exception ends it.\<close>

fun function_calls_data :: "py_lib \<Rightarrow> pyval list \<Rightarrow> py_exception + pyval list" where
  "function_calls_data L [] = Inr []"
| "function_calls_data L (func_call # rest) =
     (case func_data L func_call of
        Inl e \<Rightarrow> Inl e
      | Inr d \<Rightarrow>
          (case function_calls_data L rest of
             Inl e \<Rightarrow> Inl e
           | Inr ds \<Rightarrow> Inr (PDict d # ds)))"

text \<open>Lines 70 to 105: the function calls of the first candidate.\<close>

definition record_function_calls :: "py_lib \<Rightarrow> pyval \<Rightarrow> span \<Rightarrow> span_step" where
  "record_function_calls L response sp =
     (case py_getattr response ''candidates'' of
        Inl e \<Rightarrow> (Some e, sp)
      | Inr None \<Rightarrow> (None, sp)
      | Inr (Some candidates) \<Rightarrow>
          if \<not> py_truthy candidates then (None, sp)
          else (case py_index0 candidates of
              Inl e \<Rightarrow> (Some e, sp)
            | Inr candidate \<Rightarrow>
                (case py_getattr candidate ''function_calls'' of
                   Inl e \<Rightarrow> (Some e, sp)
                 | Inr None \<Rightarrow> (None, sp)
                 | Inr (Some function_calls) \<Rightarrow>
                     if \<not> py_truthy function_calls then (None, sp)
                     else (case py_iter function_calls of
                         Inl e \<Rightarrow> (Some e, sp)
                       | Inr calls \<Rightarrow>
                           (case function_calls_data L calls of
                              Inl e \<Rightarrow> (Some e, sp)
                            | Inr ds \<Rightarrow>
                                (case dumps_or_str L (PList ds) of
                                   Inl e \<Rightarrow> (Some e, sp)
                                 | Inr function_calls_str \<Rightarrow>
                                     let sp1 = set_attribute ''llm.response.function_calls''
                                                 (PStr function_calls_str) sp
                                     in (case py_len function_calls of
                                           Inl e \<Rightarrow> (Some e, sp1)
                                         | Inr n \<Rightarrow>
                                             (None,
                                              set_attribute ''llm.response.function_call_count''
                                                (PInt n) sp1))))))))"

text \<open>Lines 107 to 114: the token counters.\<close>

definition record_counter :: "pyval \<Rightarrow> string \<Rightarrow> string \<Rightarrow> span \<Rightarrow> span_step" where
  "record_counter usage a k sp =
     (case py_getattr usage a of
        Inl e \<Rightarrow> (Some e, sp)
      | Inr None \<Rightarrow> (None, sp)
      | Inr (Some n) \<Rightarrow> (None, set_attribute k n sp))"

definition record_usage :: "pyval \<Rightarrow> span \<Rightarrow> span_step" where
  "record_usage response sp =
     (case py_getattr response ''usage_metadata'' of
        Inl e \<Rightarrow> (Some e, sp)
      | Inr None \<Rightarrow> (None, sp)
      | Inr (Some usage) \<Rightarrow>
          if py_truthy usage then
            (case record_counter usage ''prompt_token_count'' ''llm.usage.prompt_tokens'' sp of
               (Some e, sp1) \<Rightarrow> (Some e, sp1)
             | (None, sp1) \<Rightarrow>
                 (case record_counter usage ''candidates_token_count''
                         ''llm.usage.completion_tokens'' sp1 of
                    (Some e, sp2) \<Rightarrow> (Some e, sp2)
                  | (None, sp2) \<Rightarrow>
                      record_counter usage ''total_token_count'' ''llm.usage.total_tokens'' sp2))
          else (None, sp))"

text \<open>Lines 66 to 114 in their order.\<close>

definition record_response :: "py_lib \<Rightarrow> pyval \<Rightarrow> span \<Rightarrow> span_step" where
  "record_response L response sp =
     (case record_text L response sp of
        (Some e, sp1) \<Rightarrow> (Some e, sp1)
      | (None, sp1) \<Rightarrow>
          (case record_function_calls L response sp1 of
             (Some e, sp2) \<Rightarrow> (Some e, sp2)
           | (None, sp2) \<Rightarrow> record_usage response sp2))"

text \<open>Lines 119 to 122: the handler.\<close>

definition on_exception :: "py_exception \<Rightarrow> span \<Rightarrow> span" where
  "on_exception e sp = set_status (Error (exc_str e)) (record_exception e sp)"

text \<open>
  Lines 62 to 122: the \<^verbatim>\<open>try\<close>. The original \<^verbatim>\<open>generate_content\<close> is a parameter: it
  takes the receiver, the positional and the keyword arguments, and returns a response or
  raises. Whatever is raised in the block, by the original or while the response is
  recorded, goes through the handler and is raised again.
\<close>

type_synonym kwargs = "string \<Rightarrow> pyval option"

type_synonym generate_content = "pyval \<Rightarrow> pyval list \<Rightarrow> kwargs \<Rightarrow> py_exception + pyval"

definition traced_call ::
  "py_lib \<Rightarrow> generate_content \<Rightarrow> pyval \<Rightarrow> pyval list \<Rightarrow> kwargs \<Rightarrow> span
     \<Rightarrow> (py_exception + pyval) \<times> span" where
  "traced_call L original_generate_content self args kwargs sp =
     (case original_generate_content self args kwargs of
        Inl e \<Rightarrow> (Inl e, on_exception e sp)
      | Inr response \<Rightarrow>
          (case record_response L response sp of
             (Some e, sp1) \<Rightarrow> (Inl e, on_exception e sp1)
           | (None, sp1) \<Rightarrow> (Inr response, set_status Ok sp1)))"

text \<open>
  Lines 34 to 122. An exception of lines 35 or 40 leaves no span. Inside the \<^verbatim>\<open>with\<close>,
  an exception of lines 44 to 60 goes straight to the exit of the block, and one of the
  \<^verbatim>\<open>try\<close> goes through the handler first and then to the exit of the block.
\<close>

definition wrapped_generate_content ::
  "py_lib \<Rightarrow> generate_content \<Rightarrow> pyval \<Rightarrow> pyval list \<Rightarrow> kwargs \<Rightarrow> tracer
     \<Rightarrow> (py_exception + pyval) \<times> tracer" where
  "wrapped_generate_content L original_generate_content self args kwargs tr =
     (case open_span L self of
        Inl e \<Rightarrow> (Inl e, tr)
      | Inr (model, sp) \<Rightarrow>
          (case (case request_span L model args kwargs sp of
                   (Some e, sp1) \<Rightarrow> (Inl e, sp1)
                 | (None, sp1) \<Rightarrow> traced_call L original_generate_content self args kwargs sp1) of
             (Inl e, sp2) \<Rightarrow> (Inl e, tr @ [with_exit e sp2])
           | (Inr response, sp2) \<Rightarrow> (Inr response, tr @ [sp2])))"

section \<open>A library instance and inputs for concrete evaluation\<close>

text \<open>
  The theorems below hold for every library. To evaluate the model at a concrete input one
  is fixed. Its \<^verbatim>\<open>str\<close> of a value that is not a string gives the type name in angle
  brackets, but raises \<^verbatim>\<open>ValueError\<close> on an integer of more than 4300 digits. Its \<^verbatim>\<open>json.dumps\<close> raises \<^verbatim>\<open>RecursionError\<close> on a list nested 1000 deep
  along its first elements, raises \<^verbatim>\<open>TypeError\<close> on an object, and gives a tagged type
  name otherwise.
\<close>

fun spine :: "pyval \<Rightarrow> nat" where
  "spine (PList (x # xs)) = Suc (spine x)"
| "spine v = 0"

definition recursion_error :: py_exception where
  "recursion_error =
     PyExc ''RecursionError'' [''RuntimeError'', ''Exception'']
       ''maximum recursion depth exceeded while encoding a JSON object''"

definition digits_limit :: int where
  "digits_limit = 10 ^ 4300"

definition int_too_large :: py_exception where
  "int_too_large =
     PyExc ''ValueError'' [''Exception'']
       ''Exceeds the limit (4300 digits) for integer string conversion''"

definition stub_lib :: py_lib where
  "stub_lib =
     \<lparr>str_other = (\<lambda>v.
        case v of
          PInt n \<Rightarrow> if digits_limit \<le> \<bar>n\<bar> then Inl int_too_large else Inr ''<int>''
        | _ \<Rightarrow> Inr (''<'' @ py_type_name v @ ''>'')),
      json_dumps = (\<lambda>v.
        if 1000 \<le> spine v then Inl recursion_error
        else (case v of
                PObj c truth attrs \<Rightarrow>
                  Inl (type_error (''Object of type '' @ c @ '' is not JSON serializable''))
              | _ \<Rightarrow> Inr (''json:'' @ py_type_name v)))\<rparr>"


text \<open>An original that returns \<open>r\<close>, and one that raises \<open>e\<close>, whatever the arguments.\<close>

definition returning :: "pyval \<Rightarrow> generate_content" where
  "returning r self args kwargs = Inr r"

definition raising :: "py_exception \<Rightarrow> generate_content" where
  "raising e self args kwargs = Inl e"

definition quota_exceeded :: py_exception where
  "quota_exceeded = PyExc ''ValueError'' [''Exception''] ''quota exceeded''"

definition gemini_pro :: pyval where
  "gemini_pro = PObj ''GenerativeModel'' True [(''model_name'', Attr (PStr ''gemini-pro''))]"

definition hi_response :: pyval where
  "hi_response =
     PObj ''GenerateContentResponse'' True
       [(''text'', Attr (PStr ''hi'')),
        (''usage_metadata'',
           Attr (PObj ''UsageMetadata'' True
             [(''prompt_token_count'', Attr (PInt 3)),
              (''candidates_token_count'', Attr (PInt 2)),
              (''total_token_count'', Attr (PInt 5))]))]"

text \<open>
  A response with no text part: as in the Gemini client, the getter of \<^verbatim>\<open>text\<close> then
  raises \<^verbatim>\<open>ValueError\<close>.
\<close>

definition no_text_part :: py_exception where
  "no_text_part =
     PyExc ''ValueError'' [''Exception'']
       ''The response.text quick accessor requires the response to contain a valid Part''"

definition no_text_response :: pyval where
  "no_text_response =
     PObj ''GenerateContentResponse'' True
       [(''text'', Getter no_text_part), (''candidates'', Attr (PList []))]"



section \<open>The client\<close>

text \<open>
  \<^verbatim>\<open>agentbay/client.py\<close>. The configuration holds the two connection parameters as they
  are after the constructor of \<^verbatim>\<open>Config\<close> has applied its fallbacks. The class \<^verbatim>\<open>Config\<close>
  is in \<^verbatim>\<open>agentbay/config.py\<close>, which is not among the sources: its constructor and its
  \<^verbatim>\<open>validate\<close> are parameters of \<open>initialize\<close>.
\<close>

record config =
  api_key :: "string option"
  api_url :: "string option"

datatype client_error = ConfigurationError string | RuntimeError string

text \<open>
  Modelled from the spec: \<^verbatim>\<open>Config.validate\<close> of \<^verbatim>\<open>agentbay/config.py\<close>, which is not
  among the sources. The spec: validation fails closed (raises) if either parameter is
  missing or empty, with an error that identifies the missing field.
\<close>

definition validate :: "config \<Rightarrow> client_error + unit" where
  "validate c =
     (if api_key c = None \<or> api_key c = Some [] then Inl (ConfigurationError ''api_key'')
      else if api_url c = None \<or> api_url c = Some [] then Inl (ConfigurationError ''api_url'')
      else Inr ())"

record otlp_exporter =
  endpoint :: string
  headers :: "(string \<times> string) list"

datatype span_processor = BatchSpanProcessor otlp_exporter

record tracer_provider =
  resource :: "(string \<times> string) list"
  span_processors :: "span_processor list"

record agentbay =
  config :: config
  tracer_provider :: tracer_provider

text \<open>
  The state the class works on: \<^verbatim>\<open>cls._instance\<close>, the exporters constructed so far, and
  the providers passed to \<^verbatim>\<open>trace.set_tracer_provider\<close> so far.
\<close>

record world =
  cls_instance :: "agentbay option"
  exporters_built :: "otlp_exporter list"
  provider_installs :: "tracer_provider list"

definition init_world :: world where
  "init_world = \<lparr>cls_instance = None, exporters_built = [], provider_installs = []\<rparr>"

text \<open>An optional string inside an f-string.\<close>

fun fmt :: "string option \<Rightarrow> string" where
  "fmt None = ''None''"
| "fmt (Some s) = s"

text \<open>Lines 17 to 43: \<^verbatim>\<open>__init__\<close>.\<close>

definition agentbay_init :: "config \<Rightarrow> world \<Rightarrow> agentbay \<times> world" where
  "agentbay_init cfg w =
     (let res = [(''service.name'', ''agentbay-python-sdk'')];
          exporter = \<lparr>endpoint = fmt (api_url cfg) @ ''/api/v1/traces'',
                      headers = [(''Authorization'', ''Bearer '' @ fmt (api_key cfg))]\<rparr>;
          provider = \<lparr>resource = res, span_processors = [BatchSpanProcessor exporter]\<rparr>
      in (\<lparr>config = cfg, tracer_provider = provider\<rparr>,
          w\<lparr>exporters_built := exporters_built w @ [exporter],
            provider_installs := provider_installs w @ [provider]\<rparr>))"

text \<open>Lines 45 to 54: \<^verbatim>\<open>initialize\<close>.\<close>

definition initialize ::
  "(string option \<Rightarrow> string option \<Rightarrow> config) \<Rightarrow> (config \<Rightarrow> client_error + unit)
     \<Rightarrow> string option \<Rightarrow> string option \<Rightarrow> world \<Rightarrow> (client_error + agentbay) \<times> world" where
  "initialize Config vld key url w =
     (let cfg = Config key url
      in case vld cfg of
           Inl e \<Rightarrow> (Inl e, w)
         | Inr u \<Rightarrow>
             (case agentbay_init cfg w of
                (inst, w1) \<Rightarrow> (Inr inst, w1\<lparr>cls_instance := Some inst\<rparr>)))"

text \<open>Lines 56 to 66: \<^verbatim>\<open>get_instance\<close>, with the state it leaves.\<close>

definition not_initialized_message :: string where
  "not_initialized_message =
     ''AgentBay is not initialized. Please call `agentbay.init(api_key=''
     @ [CHR 0x27] @ ''...'' @ [CHR 0x27] @ '')` first.''"

definition get_instance :: "world \<Rightarrow> (client_error + agentbay) \<times> world" where
  "get_instance w =
     (case cls_instance w of
        None \<Rightarrow> (Inl (RuntimeError not_initialized_message), w)
      | Some inst \<Rightarrow> (Inr inst, w))"

text \<open>A run of calls of \<^verbatim>\<open>initialize\<close>, one after the other, with the result of each.\<close>

fun initialize_all ::
  "(string option \<Rightarrow> string option \<Rightarrow> config) \<Rightarrow> (config \<Rightarrow> client_error + unit)
     \<Rightarrow> (string option \<times> string option) list \<Rightarrow> world
     \<Rightarrow> (client_error + agentbay) list \<times> world" where
  "initialize_all Config vld [] w = ([], w)"
| "initialize_all Config vld (c # cs) w =
     (case initialize Config vld (fst c) (snd c) w of
        (r, w1) \<Rightarrow> (case initialize_all Config vld cs w1 of (rs, w2) \<Rightarrow> (r # rs, w2)))"

text \<open>A constructor of \<^verbatim>\<open>Config\<close> with no fallback, for concrete inputs.\<close>

definition plain_config :: "string option \<Rightarrow> string option \<Rightarrow> config" where
  "plain_config key url = \<lparr>api_key = key, api_url = url\<rparr>"

section \<open>Facts about the span operations\<close>

lemma start_span_simps:
  "span_name (start_span n) = n"
  "span_attributes (start_span n) k = None"
  "span_exceptions (start_span n) = []"
  "span_status (start_span n) = Unset"
  by (simp_all add: start_span_def)

lemma set_attribute_simps:
  "span_name (set_attribute k v sp) = span_name sp"
  "span_attributes (set_attribute k v sp) k' = (if k' = k then Some v else span_attributes sp k')"
  "span_exceptions (set_attribute k v sp) = span_exceptions sp"
  "span_status (set_attribute k v sp) = span_status sp"
  by (simp_all add: set_attribute_def)

lemma on_exception_simps:
  "span_name (on_exception e sp) = span_name sp"
  "span_attributes (on_exception e sp) = span_attributes sp"
  "span_exceptions (on_exception e sp) = span_exceptions sp @ [e]"
  "span_status (on_exception e sp) = Error (exc_str e)"
  by (simp_all add: on_exception_def set_status_def record_exception_def)

lemma with_exit_simps:
  "span_name (with_exit e sp) = span_name sp"
  "span_attributes (with_exit e sp) = span_attributes sp"
  "span_exceptions (with_exit e sp) = span_exceptions sp @ [e]"
  "span_status (with_exit e sp) = Error (exc_class e @ '': '' @ exc_str e)"
  by (simp_all add: with_exit_def set_status_def record_exception_def)

lemma set_status_simps:
  "span_name (set_status st sp) = span_name sp"
  "span_attributes (set_status st sp) = span_attributes sp"
  "span_exceptions (set_status st sp) = span_exceptions sp"
  "span_status (set_status st sp) = st"
  by (simp_all add: set_status_def)

text \<open>What each step leaves alone.\<close>

lemma record_request_keeps:
  "span_name (snd (record_request L m c sp)) = span_name sp"
  "span_exceptions (snd (record_request L m c sp)) = span_exceptions sp"
  "span_status (snd (record_request L m c sp)) = span_status sp"
  "k \<noteq> ''llm.system'' \<Longrightarrow> k \<noteq> ''llm.request.model'' \<Longrightarrow> k \<noteq> ''llm.request.messages'' \<Longrightarrow>
     span_attributes (snd (record_request L m c sp)) k = span_attributes sp k"
  by (simp_all add: record_request_def Let_def set_attribute_simps split: sum.splits)

lemma record_tools_keeps:
  "span_name (snd (record_tools L t sp)) = span_name sp"
  "span_exceptions (snd (record_tools L t sp)) = span_exceptions sp"
  "span_status (snd (record_tools L t sp)) = span_status sp"
  "k \<noteq> ''llm.request.tools'' \<Longrightarrow> k \<noteq> ''llm.request.tool_count'' \<Longrightarrow>
     span_attributes (snd (record_tools L t sp)) k = span_attributes sp k"
  by (simp_all add: record_tools_def Let_def set_attribute_simps split: sum.splits pyval.splits)

lemma request_span_keeps:
  "span_name (snd (request_span L m args kwargs sp)) = span_name sp"
  "span_exceptions (snd (request_span L m args kwargs sp)) = span_exceptions sp"
  "span_status (snd (request_span L m args kwargs sp)) = span_status sp"
  "k \<noteq> ''llm.system'' \<Longrightarrow> k \<noteq> ''llm.request.model'' \<Longrightarrow> k \<noteq> ''llm.request.messages'' \<Longrightarrow>
   k \<noteq> ''llm.request.tools'' \<Longrightarrow> k \<noteq> ''llm.request.tool_count'' \<Longrightarrow>
     span_attributes (snd (request_span L m args kwargs sp)) k = span_attributes sp k"
proof -
  let ?c = "case args of a # rest \<Rightarrow> a
            | [] \<Rightarrow> (case kwargs ''contents'' of Some c \<Rightarrow> c | None \<Rightarrow> PList [])"
  let ?t = "case kwargs ''tools'' of Some t \<Rightarrow> t | None \<Rightarrow> PList []"
  have r: "request_span L m args kwargs sp =
      (case fst (record_request L m ?c sp) of
         Some e \<Rightarrow> record_request L m ?c sp
       | None \<Rightarrow> record_tools L ?t (snd (record_request L m ?c sp)))"
    by (simp add: request_span_def Let_def split: prod.splits option.splits)
  show "span_name (snd (request_span L m args kwargs sp)) = span_name sp"
    "span_exceptions (snd (request_span L m args kwargs sp)) = span_exceptions sp"
    "span_status (snd (request_span L m args kwargs sp)) = span_status sp"
    by (simp_all add: r record_request_keeps record_tools_keeps split: option.splits)
  show "span_attributes (snd (request_span L m args kwargs sp)) k = span_attributes sp k"
    if "k \<noteq> ''llm.system''" "k \<noteq> ''llm.request.model''" "k \<noteq> ''llm.request.messages''"
      "k \<noteq> ''llm.request.tools''" "k \<noteq> ''llm.request.tool_count''"
    using that by (simp add: r record_request_keeps record_tools_keeps split: option.splits)
qed

lemma record_text_keeps:
  "span_name (snd (record_text L r sp)) = span_name sp"
  "span_exceptions (snd (record_text L r sp)) = span_exceptions sp"
  "span_status (snd (record_text L r sp)) = span_status sp"
  "k \<noteq> ''llm.response.content'' \<Longrightarrow>
     span_attributes (snd (record_text L r sp)) k = span_attributes sp k"
  by (simp_all add: record_text_def set_attribute_simps split: sum.splits option.splits)

lemma record_function_calls_keeps:
  "span_name (snd (record_function_calls L r sp)) = span_name sp"
  "span_exceptions (snd (record_function_calls L r sp)) = span_exceptions sp"
  "span_status (snd (record_function_calls L r sp)) = span_status sp"
  "k \<noteq> ''llm.response.function_calls'' \<Longrightarrow> k \<noteq> ''llm.response.function_call_count'' \<Longrightarrow>
     span_attributes (snd (record_function_calls L r sp)) k = span_attributes sp k"
  by (simp_all add: record_function_calls_def Let_def set_attribute_simps
        split: sum.splits option.splits)

lemma record_counter_keeps:
  "span_name (snd (record_counter u a k sp)) = span_name sp"
  "span_exceptions (snd (record_counter u a k sp)) = span_exceptions sp"
  "span_status (snd (record_counter u a k sp)) = span_status sp"
  "k' \<noteq> k \<Longrightarrow> span_attributes (snd (record_counter u a k sp)) k' = span_attributes sp k'"
  by (simp_all add: record_counter_def set_attribute_simps split: sum.splits option.splits)

lemma record_usage_keeps:
  "span_name (snd (record_usage r sp)) = span_name sp"
  "span_exceptions (snd (record_usage r sp)) = span_exceptions sp"
  "span_status (snd (record_usage r sp)) = span_status sp"
  "k \<noteq> ''llm.usage.prompt_tokens'' \<Longrightarrow> k \<noteq> ''llm.usage.completion_tokens'' \<Longrightarrow>
   k \<noteq> ''llm.usage.total_tokens'' \<Longrightarrow>
     span_attributes (snd (record_usage r sp)) k = span_attributes sp k"
proof -
  have u: "record_usage r sp =
      (case py_getattr r ''usage_metadata'' of
         Inl e \<Rightarrow> (Some e, sp)
       | Inr None \<Rightarrow> (None, sp)
       | Inr (Some u) \<Rightarrow>
           if py_truthy u then
             (let s1 = record_counter u ''prompt_token_count'' ''llm.usage.prompt_tokens'' sp
              in case fst s1 of
                   Some e \<Rightarrow> s1
                 | None \<Rightarrow>
                     (let s2 = record_counter u ''candidates_token_count''
                                 ''llm.usage.completion_tokens'' (snd s1)
                      in case fst s2 of
                           Some e \<Rightarrow> s2
                         | None \<Rightarrow> record_counter u ''total_token_count''
                                     ''llm.usage.total_tokens'' (snd s2)))
           else (None, sp))"
    by (simp add: record_usage_def Let_def split: sum.splits option.splits prod.splits)
  show "span_name (snd (record_usage r sp)) = span_name sp"
    "span_exceptions (snd (record_usage r sp)) = span_exceptions sp"
    "span_status (snd (record_usage r sp)) = span_status sp"
    by (simp_all add: u Let_def record_counter_keeps split: sum.splits option.splits)
  show "span_attributes (snd (record_usage r sp)) k = span_attributes sp k"
    if "k \<noteq> ''llm.usage.prompt_tokens''" "k \<noteq> ''llm.usage.completion_tokens''"
      "k \<noteq> ''llm.usage.total_tokens''"
    using that
    by (simp add: u Let_def record_counter_keeps split: sum.splits option.splits)
qed

lemma record_response_unfold:
  "record_response L r sp =
     (let s1 = record_text L r sp
      in case fst s1 of
           Some e \<Rightarrow> s1
         | None \<Rightarrow>
             (let s2 = record_function_calls L r (snd s1)
              in case fst s2 of
                   Some e \<Rightarrow> s2
                 | None \<Rightarrow> record_usage r (snd s2)))"
  by (simp add: record_response_def Let_def split: prod.splits option.splits)

lemma record_response_keeps:
  "span_name (snd (record_response L r sp)) = span_name sp"
  "span_exceptions (snd (record_response L r sp)) = span_exceptions sp"
  "span_status (snd (record_response L r sp)) = span_status sp"
  "k \<noteq> ''llm.response.content'' \<Longrightarrow> k \<noteq> ''llm.response.function_calls'' \<Longrightarrow>
   k \<noteq> ''llm.response.function_call_count'' \<Longrightarrow> k \<noteq> ''llm.usage.prompt_tokens'' \<Longrightarrow>
   k \<noteq> ''llm.usage.completion_tokens'' \<Longrightarrow> k \<noteq> ''llm.usage.total_tokens'' \<Longrightarrow>
     span_attributes (snd (record_response L r sp)) k = span_attributes sp k"
  by (simp_all add: record_response_unfold Let_def record_text_keeps
        record_function_calls_keeps record_usage_keeps split: option.splits)

lemma initialize_failure:
  assumes "vld (Config key url) = Inl e"
  shows "initialize Config vld key url w = (Inl e, w)"
  using assms by (simp add: initialize_def Let_def)

lemma initialize_success:
  assumes "initialize Config vld key url w = (Inr inst, w')"
  shows "cls_instance w' = Some inst"
  using assms
  by (auto simp: initialize_def Let_def split: sum.splits prod.splits)

lemma initialize_all_failures:
  assumes "\<forall>r \<in> set (fst (initialize_all Config vld cs w)). isl r"
  shows "snd (initialize_all Config vld cs w) = w"
  using assms
proof (induction cs arbitrary: w)
  case Nil
  then show ?case by simp
next
  case (Cons c cs)
  obtain r w1 where i: "initialize Config vld (fst c) (snd c) w = (r, w1)"
    by (cases "initialize Config vld (fst c) (snd c) w")
  obtain rs w2 where a: "initialize_all Config vld cs w1 = (rs, w2)"
    by (cases "initialize_all Config vld cs w1")
  from Cons.prems i a have "isl r" and rest: "\<forall>r \<in> set (fst (initialize_all Config vld cs w1)). isl r"
    by simp_all
  then have "w1 = w"
    using i by (auto simp: initialize_def Let_def split: sum.splits prod.splits)
  then show ?case
    using Cons.IH [OF rest] i a by simp
qed

text \<open>The wrapper, once the span is open, by the step that ends it.\<close>

lemma wrapped_unfold:
  assumes "open_span L self = Inr (model, sp0)"
  shows "wrapped_generate_content L original_generate_content self args kwargs tr =
     (let q = request_span L model args kwargs sp0
      in case fst q of
           Some e \<Rightarrow> (Inl e, tr @ [with_exit e (snd q)])
         | None \<Rightarrow>
             (case original_generate_content self args kwargs of
                Inl e \<Rightarrow> (Inl e, tr @ [with_exit e (on_exception e (snd q))])
              | Inr r \<Rightarrow>
                  (let p = record_response L r (snd q)
                   in case fst p of
                        Some e \<Rightarrow> (Inl e, tr @ [with_exit e (on_exception e (snd p))])
                      | None \<Rightarrow> (Inr r, tr @ [set_status Ok (snd p)]))))"
  using assms
  by (simp add: wrapped_generate_content_def traced_call_def Let_def
        split: prod.splits option.splits sum.splits)

lemma wrapped_not_opened:
  assumes "open_span L self = Inl e"
  shows "wrapped_generate_content L original_generate_content self args kwargs tr = (Inl e, tr)"
  using assms by (simp add: wrapped_generate_content_def)

lemma open_span_fresh:
  assumes "open_span L self = Inr (model, sp0)"
  shows "span_attributes sp0 k = None" "span_exceptions sp0 = []" "span_status sp0 = Unset"
  using assms
  by (auto simp: open_span_def Let_def start_span_simps split: sum.splits)

text \<open>The attributes of the span the wrapper closes.\<close>

lemma wrapped_closed_span:
  assumes "open_span L self = Inr (model, sp0)"
  shows "\<exists>sp. snd (wrapped_generate_content L original_generate_content self args kwargs tr)
              = tr @ [sp]
     \<and> span_attributes sp =
         (case (fst (request_span L model args kwargs sp0),
                original_generate_content self args kwargs) of
            (None, Inr r) \<Rightarrow>
              span_attributes (snd (record_response L r (snd (request_span L model args kwargs sp0))))
          | _ \<Rightarrow> span_attributes (snd (request_span L model args kwargs sp0)))"
  by (simp add: wrapped_unfold [OF assms] Let_def with_exit_simps on_exception_simps
        set_status_simps split: option.splits sum.splits)

lemma original_failure_closed_span:
  assumes "open_span L self = Inr (model, sp0)"
    and "fst (request_span L model args kwargs sp0) = None"
    and "original_generate_content self args kwargs = Inl e"
  shows "\<exists>sp. wrapped_generate_content L original_generate_content self args kwargs tr
                 = (Inl e, tr @ [sp])
              \<and> span_exceptions sp = [e, e]
              \<and> span_status sp = Error (exc_class e @ '': '' @ exc_str e)"
  using assms(2,3) open_span_fresh [OF assms(1)]
  by (simp add: wrapped_unfold [OF assms(1)] Let_def with_exit_simps on_exception_simps
        request_span_keeps)

lemma response_failure_closed_span:
  assumes "open_span L self = Inr (model, sp0)"
    and "request_span L model args kwargs sp0 = (None, sp1)"
    and "original_generate_content self args kwargs = Inr r"
    and "fst (record_response L r sp1) = Some e"
  shows "\<exists>sp. wrapped_generate_content L original_generate_content self args kwargs tr
                 = (Inl e, tr @ [sp])
              \<and> span_exceptions sp = [e, e]
              \<and> span_status sp = Error (exc_class e @ '': '' @ exc_str e)"
  using assms(2,3,4) open_span_fresh [OF assms(1)] request_span_keeps(2) [of L model args kwargs sp0]
  by (simp add: wrapped_unfold [OF assms(1)] Let_def with_exit_simps on_exception_simps
        record_response_keeps)

lemma open_span_gemini_pro:
  "open_span stub_lib gemini_pro
     = Inr (PStr ''gemini-pro'', start_span ''gemini.chat.generate_content gemini-pro'')"
  by (simp add: open_span_def gemini_pro_def)

lemma request_span_hello:
  "request_span L model [PStr ''hello''] Map.empty sp
     = (None, set_attribute ''llm.request.messages'' (PStr ''hello'')
                (set_attribute ''llm.request.model'' model
                   (set_attribute ''llm.system'' (PStr ''gemini'') sp)))"
  by (simp add: request_span_def record_request_def record_tools_def Let_def)

lemma response_content_falsy:
  assumes "py_getattr r ''text'' = Inr (Some t)" and "\<not> py_truthy t"
  shows "span_attributes (snd (record_response L r sp)) ''llm.response.content''
           = span_attributes sp ''llm.response.content''"
proof -
  have "record_text L r sp = (None, sp)"
    using assms by (simp add: record_text_def)
  then show ?thesis
    by (simp add: record_response_unfold Let_def record_function_calls_keeps record_usage_keeps
          split: option.splits)
qed

lemma request_span_unfold:
  "request_span L m args kwargs sp =
     (let q = record_request L m
                (case args of
                   a # rest \<Rightarrow> a
                 | [] \<Rightarrow> (case kwargs ''contents'' of Some c \<Rightarrow> c | None \<Rightarrow> PList [])) sp
      in case fst q of
           Some e \<Rightarrow> q
         | None \<Rightarrow> record_tools L (case kwargs ''tools'' of Some t \<Rightarrow> t | None \<Rightarrow> PList [])
                     (snd q))"
  by (simp add: request_span_def Let_def split: prod.splits option.splits)

lemma request_span_tools_falsy:
  assumes "kwargs ''tools'' = Some t" and "\<not> py_truthy t"
  shows "span_attributes (snd (request_span L m args kwargs sp)) ''llm.request.tools''
           = span_attributes sp ''llm.request.tools''"
    and "span_attributes (snd (request_span L m args kwargs sp)) ''llm.request.tool_count''
           = span_attributes sp ''llm.request.tool_count''"
proof -
  have "record_tools L t sp' = (None, sp')" for sp'
    using assms(2) by (simp add: record_tools_def)
  then show "span_attributes (snd (request_span L m args kwargs sp)) ''llm.request.tools''
           = span_attributes sp ''llm.request.tools''"
    and "span_attributes (snd (request_span L m args kwargs sp)) ''llm.request.tool_count''
           = span_attributes sp ''llm.request.tool_count''"
    using assms(1)
    by (simp_all add: request_span_unfold Let_def record_request_keeps split: option.splits)
qed

lemma request_span_model:
  "span_attributes (snd (request_span L m args kwargs sp)) ''llm.request.model'' = Some m"
  "span_attributes (snd (request_span L m args kwargs sp)) ''llm.system'' = Some (PStr ''gemini'')"
  by (simp_all add: request_span_unfold Let_def record_tools_keeps record_request_def
        set_attribute_simps split: option.splits sum.splits)

lemma request_span_messages:
  assumes "py_str L (case args of
                       a # rest \<Rightarrow> a
                     | [] \<Rightarrow> (case kwargs ''contents'' of Some c \<Rightarrow> c | None \<Rightarrow> PList []))
           = Inr s"
  shows "request_span L m args kwargs sp
           = record_tools L (case kwargs ''tools'' of Some t \<Rightarrow> t | None \<Rightarrow> PList [])
               (set_attribute ''llm.request.messages'' (PStr s)
                  (set_attribute ''llm.request.model'' m
                     (set_attribute ''llm.system'' (PStr ''gemini'') sp)))"
    and "span_attributes (snd (request_span L m args kwargs sp)) ''llm.request.messages''
           = Some (PStr s)"
proof -
  show r: "request_span L m args kwargs sp
           = record_tools L (case kwargs ''tools'' of Some t \<Rightarrow> t | None \<Rightarrow> PList [])
               (set_attribute ''llm.request.messages'' (PStr s)
                  (set_attribute ''llm.request.model'' m
                     (set_attribute ''llm.system'' (PStr ''gemini'') sp)))"
    using assms by (simp add: request_span_unfold record_request_def Let_def)
  show "span_attributes (snd (request_span L m args kwargs sp)) ''llm.request.messages''
          = Some (PStr s)"
    by (simp add: r record_tools_keeps set_attribute_simps)
qed

lemma record_tools_harmless:
  assumes "\<forall>t. kwargs ''tools'' = Some t \<longrightarrow> py_truthy t \<longrightarrow> (\<exists>s. tools_str L t = Inr s)"
  shows "fst (record_tools L (case kwargs ''tools'' of Some t \<Rightarrow> t | None \<Rightarrow> PList []) sp) = None"
  using assms
  by (auto simp: record_tools_def Let_def split: option.splits sum.splits)

lemma no_function_calls_ok:
  assumes "py_getattr r ''candidates'' = Inr None
           \<or> (\<exists>cs. py_getattr r ''candidates'' = Inr (Some (PList cs))
                    \<and> (\<forall>c \<in> set cs. py_getattr c ''function_calls'' = Inr None))"
  shows "record_function_calls L r sp = (None, sp)"
  using assms
  by (auto simp: record_function_calls_def split: option.splits sum.splits list.splits
        elim!: py_index0.elims)

lemma record_text_present:
  assumes "py_getattr r ''text'' = Inr (Some t)" and "py_truthy t" and "py_str L t = Inr s"
  shows "record_text L r sp = (None, set_attribute ''llm.response.content'' (PStr s) sp)"
  using assms by (simp add: record_text_def)

lemma record_usage_present:
  assumes "py_getattr r ''usage_metadata'' = Inr (Some u)" and "py_truthy u"
    and "py_getattr u ''prompt_token_count'' = Inr (Some p)"
    and "py_getattr u ''candidates_token_count'' = Inr (Some c)"
    and "py_getattr u ''total_token_count'' = Inr (Some n)"
  shows "record_usage r sp =
     (None, set_attribute ''llm.usage.total_tokens'' n
              (set_attribute ''llm.usage.completion_tokens'' c
                 (set_attribute ''llm.usage.prompt_tokens'' p sp)))"
  using assms by (simp add: record_usage_def record_counter_def)



















lemma hi_response_recorded:
  "fst (record_response stub_lib hi_response sp) = None"
  by (simp add: record_response_def record_text_def record_function_calls_def record_usage_def
        record_counter_def hi_response_def split: prod.splits)

lemma wrapped_hi_response:
  "fst (wrapped_generate_content stub_lib (returning hi_response) gemini_pro [PStr ''hello'']
          Map.empty tr) = Inr hi_response"
  using hi_response_recorded
  by (simp add: wrapped_unfold [OF open_span_gemini_pro] request_span_hello returning_def Let_def
        split: option.splits)





section \<open>Claims\<close>

text \<open>
  C1. The claim fails on the span that is closed. The original raises
  \<^verbatim>\<open>ValueError("quota exceeded")\<close>: the wrapped call raises the same exception, but the
  handler of lines 120 to 122 and the exit of the \<^verbatim>\<open>with\<close> of line 42 both act on it, so
  the span has the exception recorded twice, and its status description is
  \<^verbatim>\<open>ValueError: quota exceeded\<close>, not the message \<^verbatim>\<open>quota exceeded\<close> that line 121 set.
\<close>

theorem original_failure_recorded_twice:
  "\<exists>sp. wrapped_generate_content stub_lib (raising quota_exceeded) gemini_pro [PStr ''hello'']
            Map.empty []
          = (Inl quota_exceeded, [sp])
     \<and> span_exceptions sp = [quota_exceeded, quota_exceeded]
     \<and> span_status sp = Error ''ValueError: quota exceeded''
     \<and> span_status sp \<noteq> Error (exc_str quota_exceeded)"
  using original_failure_closed_span
    [where L = stub_lib and self = gemini_pro and args = "[PStr ''hello'']"
       and kwargs = Map.empty and original_generate_content = "raising quota_exceeded"
       and e = quota_exceeded and tr = "[]", OF open_span_gemini_pro]
  by (simp add: request_span_hello raising_def) (auto simp: quota_exceeded_def)

text \<open>
  C2. The wrapped call returns \<open>r\<close> exactly when the span could be opened, recording the
  request raised nothing, the original, called with the same receiver, positional
  arguments and keyword arguments, returned \<open>r\<close>, and recording the response raised
  nothing. So whenever the wrapped call succeeds, its value is the value of the original on
  the same arguments.
\<close>

theorem wrapped_returns_original_result:
  "fst (wrapped_generate_content L original_generate_content self args kwargs tr) = Inr r
     \<longleftrightarrow> (\<exists>model sp0 sp1.
            open_span L self = Inr (model, sp0)
          \<and> request_span L model args kwargs sp0 = (None, sp1)
          \<and> original_generate_content self args kwargs = Inr r
          \<and> fst (record_response L r sp1) = None)"
proof (cases "open_span L self")
  case (Inl e)
  then show ?thesis
    by (simp add: wrapped_not_opened)
next
  case (Inr a)
  obtain model sp0 where a: "a = (model, sp0)"
    by (cases a)
  show ?thesis
    using Inr
    by (auto simp: a wrapped_unfold [of L self model sp0] Let_def prod_eq_iff
          split: option.splits sum.splits)
qed

theorem wrapped_returns_original_result_witness:
  "fst (wrapped_generate_content stub_lib (returning hi_response) gemini_pro [PStr ''hello'']
          Map.empty [])
     = Inr hi_response
   \<and> returning hi_response gemini_pro [PStr ''hello''] Map.empty = Inr hi_response"
  using wrapped_returns_original_result
    [where L = stub_lib and original_generate_content = "returning hi_response"
       and self = gemini_pro and args = "[PStr ''hello'']" and kwargs = Map.empty
       and tr = "[]" and r = hi_response]
  by (simp add: open_span_gemini_pro request_span_hello hi_response_recorded returning_def)

text \<open>
  C3. The claim fails on a response that has no text part. The getter of \<^verbatim>\<open>text\<close> then
  raises \<^verbatim>\<open>ValueError\<close>, which \<^verbatim>\<open>hasattr\<close> at line 66 does not absorb: although the
  original returned the response, the wrapped call raises that \<^verbatim>\<open>ValueError\<close> and the
  span is closed with status ERROR.
\<close>

theorem raising_text_getter_propagates:
  "py_getattr no_text_response ''text'' = Inl no_text_part
   \<and> returning no_text_response gemini_pro [PStr ''hello''] Map.empty = Inr no_text_response
   \<and> (\<exists>sp. wrapped_generate_content stub_lib (returning no_text_response) gemini_pro
               [PStr ''hello''] Map.empty []
             = (Inl no_text_part, [sp])
          \<and> span_exceptions sp = [no_text_part, no_text_part]
          \<and> span_status sp = Error (''ValueError: '' @ exc_str no_text_part))"
proof -
  have g: "py_getattr no_text_response ''text'' = Inl no_text_part"
    by (simp add: no_text_response_def no_text_part_def is_instance_def)
  have "fst (record_response stub_lib no_text_response sp) = Some no_text_part" for sp
    by (simp add: record_response_def record_text_def g)
  from response_failure_closed_span
    [where L = stub_lib and self = gemini_pro and args = "[PStr ''hello'']"
       and kwargs = Map.empty and original_generate_content = "returning no_text_response"
       and r = no_text_response and e = no_text_part and tr = "[]",
     OF open_span_gemini_pro request_span_hello _ this]
  show ?thesis
    using g by (simp add: returning_def) (simp add: no_text_part_def)
qed

text \<open>
  C4. The receiver has \<^verbatim>\<open>model_name\<close> \<^verbatim>\<open>"gemini-pro"\<close>, the request content is the string
  \<^verbatim>\<open>"hello"\<close> (first positional argument, or \<^verbatim>\<open>contents\<close> when there is none), a tools
  argument, if there is a truthy one, can be turned into a string, and the original
  returns a response with text \<^verbatim>\<open>"hi"\<close>, a truthy usage object with the counters 3, 2 and
  5, and no function calls. Then the wrapped call returns the response and closes exactly
  one span: its status is OK, its name is \<^verbatim>\<open>gemini.chat.generate_content gemini-pro\<close>, and
  it has the six attributes of the scenario.
\<close>

theorem gemini_pro_scenario_span:
  assumes self: "py_getattr self ''model_name'' = Inr (Some (PStr ''gemini-pro''))"
    and args: "(\<exists>rest. args = PStr ''hello'' # rest)
               \<or> (args = [] \<and> kwargs ''contents'' = Some (PStr ''hello''))"
    and tools: "\<forall>t. kwargs ''tools'' = Some t \<longrightarrow> py_truthy t \<longrightarrow> (\<exists>s. tools_str L t = Inr s)"
    and orig: "original_generate_content self args kwargs = Inr r"
    and content: "py_getattr r ''text'' = Inr (Some (PStr ''hi''))"
    and cands: "py_getattr r ''candidates'' = Inr None
          \<or> (\<exists>cs. py_getattr r ''candidates'' = Inr (Some (PList cs))
                   \<and> (\<forall>c \<in> set cs. py_getattr c ''function_calls'' = Inr None))"
    and usage: "py_getattr r ''usage_metadata'' = Inr (Some u)" "py_truthy u"
      "py_getattr u ''prompt_token_count'' = Inr (Some (PInt 3))"
      "py_getattr u ''candidates_token_count'' = Inr (Some (PInt 2))"
      "py_getattr u ''total_token_count'' = Inr (Some (PInt 5))"
  shows "\<exists>sp. wrapped_generate_content L original_generate_content self args kwargs tr
                 = (Inr r, tr @ [sp])
     \<and> span_status sp = Ok
     \<and> span_name sp = ''gemini.chat.generate_content gemini-pro''
     \<and> span_attributes sp ''llm.request.model'' = Some (PStr ''gemini-pro'')
     \<and> span_attributes sp ''llm.request.messages'' = Some (PStr ''hello'')
     \<and> span_attributes sp ''llm.response.content'' = Some (PStr ''hi'')
     \<and> span_attributes sp ''llm.usage.prompt_tokens'' = Some (PInt 3)
     \<and> span_attributes sp ''llm.usage.completion_tokens'' = Some (PInt 2)
     \<and> span_attributes sp ''llm.usage.total_tokens'' = Some (PInt 5)"
proof -
  let ?sp0 = "start_span ''gemini.chat.generate_content gemini-pro''"
  let ?q = "request_span L (PStr ''gemini-pro'') args kwargs ?sp0"
  have o: "open_span L self = Inr (PStr ''gemini-pro'', ?sp0)"
    by (simp add: open_span_def self)
  have msg: "py_str L (case args of a # rest \<Rightarrow> a
              | [] \<Rightarrow> (case kwargs ''contents'' of Some c \<Rightarrow> c | None \<Rightarrow> PList []))
             = Inr ''hello''"
    using args by auto
  note rm = request_span_messages
    [where L = L and args = args and kwargs = kwargs and s = "''hello''"
       and m = "PStr ''gemini-pro''" and sp = ?sp0, OF msg]
  have q: "fst ?q = None"
    by (simp add: rm(1) record_tools_harmless [where kwargs = kwargs and L = L, OF tools])
  have p: "record_response L r (snd ?q) =
     (None, set_attribute ''llm.usage.total_tokens'' (PInt 5)
              (set_attribute ''llm.usage.completion_tokens'' (PInt 2)
                 (set_attribute ''llm.usage.prompt_tokens'' (PInt 3)
                    (set_attribute ''llm.response.content'' (PStr ''hi'') (snd ?q)))))"
    using record_text_present [OF content, of L "''hi''" "snd ?q"]
      no_function_calls_ok [OF cands, of L]
      record_usage_present [OF usage]
    by (simp add: record_response_def)
  show ?thesis
    using q orig request_span_model(1) [of L "PStr ''gemini-pro''" args kwargs ?sp0] rm(2)
    by (simp add: wrapped_unfold [OF o] Let_def p set_status_simps set_attribute_simps
          request_span_keeps start_span_simps)
qed

theorem gemini_pro_scenario_span_witness:
  "\<exists>sp. wrapped_generate_content stub_lib (returning hi_response) gemini_pro [PStr ''hello'']
            Map.empty []
          = (Inr hi_response, [] @ [sp])
     \<and> span_status sp = Ok
     \<and> span_name sp = ''gemini.chat.generate_content gemini-pro''
     \<and> span_attributes sp ''llm.request.model'' = Some (PStr ''gemini-pro'')
     \<and> span_attributes sp ''llm.request.messages'' = Some (PStr ''hello'')
     \<and> span_attributes sp ''llm.response.content'' = Some (PStr ''hi'')
     \<and> span_attributes sp ''llm.usage.prompt_tokens'' = Some (PInt 3)
     \<and> span_attributes sp ''llm.usage.completion_tokens'' = Some (PInt 2)
     \<and> span_attributes sp ''llm.usage.total_tokens'' = Some (PInt 5)"
  using gemini_pro_scenario_span
    [where self = gemini_pro and args = "[PStr ''hello'']" and kwargs = Map.empty
       and original_generate_content = "returning hi_response" and r = hi_response
       and u = "PObj ''UsageMetadata'' True
             [(''prompt_token_count'', Attr (PInt 3)),
              (''candidates_token_count'', Attr (PInt 2)),
              (''total_token_count'', Attr (PInt 5))]"
       and L = stub_lib and tr = "[]"]
  by (simp add: gemini_pro_def hi_response_def returning_def)







text \<open>
  C9. Either no span was opened (the model name could not be read or formatted, and the
  wrapped call raised that exception), or one span is closed, and on it: a response
  whose \<^verbatim>\<open>text\<close> is present and falsy leaves \<^verbatim>\<open>llm.response.content\<close> absent, and a
  \<^verbatim>\<open>tools\<close> argument that is supplied and falsy leaves both \<^verbatim>\<open>llm.request.tools\<close> and
  \<^verbatim>\<open>llm.request.tool_count\<close> absent.
\<close>

theorem falsy_values_not_recorded:
  assumes "wrapped_generate_content L original_generate_content self args kwargs tr = (res, tr')"
  shows "(\<exists>e. open_span L self = Inl e \<and> res = Inl e \<and> tr' = tr)
     \<or> (\<exists>sp. tr' = tr @ [sp]
          \<and> ((\<exists>r t. original_generate_content self args kwargs = Inr r
                     \<and> py_getattr r ''text'' = Inr (Some t) \<and> \<not> py_truthy t)
               \<longrightarrow> span_attributes sp ''llm.response.content'' = None)
          \<and> ((\<exists>t. kwargs ''tools'' = Some t \<and> \<not> py_truthy t)
               \<longrightarrow> span_attributes sp ''llm.request.tools'' = None
                   \<and> span_attributes sp ''llm.request.tool_count'' = None))"
proof (cases "open_span L self")
  case (Inl e)
  then show ?thesis
    using assms by (simp add: wrapped_not_opened)
next
  case (Inr a)
  obtain model sp0 where o: "open_span L self = Inr (model, sp0)"
    using Inr by (cases a) simp
  let ?q = "request_span L model args kwargs sp0"
  from wrapped_closed_span [OF o, of original_generate_content args kwargs tr]
  obtain sp where tr': "tr' = tr @ [sp]"
    and attrs: "span_attributes sp =
         (case (fst ?q, original_generate_content self args kwargs) of
            (None, Inr r) \<Rightarrow> span_attributes (snd (record_response L r (snd ?q)))
          | _ \<Rightarrow> span_attributes (snd ?q))"
    using assms by auto
  have q0: "span_attributes (snd ?q) ''llm.response.content'' = None"
    by (simp add: request_span_keeps open_span_fresh [OF o])
  have content: "span_attributes sp ''llm.response.content'' = None"
    if "original_generate_content self args kwargs = Inr r"
      and "py_getattr r ''text'' = Inr (Some t)" and "\<not> py_truthy t" for r t
    using that(1) q0 response_content_falsy [OF that(2,3), of L "snd ?q"]
    by (simp add: attrs split: option.splits)
  have falsy: "span_attributes sp ''llm.request.tools'' = None
              \<and> span_attributes sp ''llm.request.tool_count'' = None"
    if "kwargs ''tools'' = Some t" and "\<not> py_truthy t" for t
    using request_span_tools_falsy [where kwargs = kwargs and t = t and L = L and m = model
        and args = args and sp = sp0, OF that]
    by (simp add: attrs record_response_keeps open_span_fresh [OF o]
          split: option.splits sum.splits)
  show ?thesis
    using tr' content falsy by (intro disjI2 exI [of _ sp]) blast
qed

theorem falsy_values_not_recorded_witness:
  "\<exists>sp. snd (wrapped_generate_content stub_lib
                 (returning (PObj ''GenerateContentResponse'' True [(''text'', Attr (PStr []))]))
                 gemini_pro [PStr ''hello''] (Map.empty(''tools'' \<mapsto> PList [])) [])
          = [] @ [sp]
     \<and> span_attributes sp ''llm.response.content'' = None
     \<and> span_attributes sp ''llm.request.tools'' = None
     \<and> span_attributes sp ''llm.request.tool_count'' = None"
  using falsy_values_not_recorded
    [where kwargs = "Map.empty(''tools'' \<mapsto> PList [])" and L = stub_lib
       and original_generate_content
         = "returning (PObj ''GenerateContentResponse'' True [(''text'', Attr (PStr []))])"
       and self = gemini_pro and args = "[PStr ''hello'']" and tr = "[]"
       and res = "fst (wrapped_generate_content stub_lib
                 (returning (PObj ''GenerateContentResponse'' True [(''text'', Attr (PStr []))]))
                 gemini_pro [PStr ''hello''] (Map.empty(''tools'' \<mapsto> PList [])) [])"
       and tr' = "snd (wrapped_generate_content stub_lib
                 (returning (PObj ''GenerateContentResponse'' True [(''text'', Attr (PStr []))]))
                 gemini_pro [PStr ''hello''] (Map.empty(''tools'' \<mapsto> PList [])) [])"]
  by (simp add: returning_def open_span_gemini_pro)



text \<open>
  C7. Starting from the state of a fresh class, after any run of calls of \<^verbatim>\<open>initialize\<close>
  none of which succeeded, \<^verbatim>\<open>get_instance\<close> raises its not-initialized error and leaves
  the state as it was. After a call of \<^verbatim>\<open>initialize\<close> that returned an instance,
  \<^verbatim>\<open>get_instance\<close> returns that instance and leaves the state as it was. Both hold for
  every constructor and every \<^verbatim>\<open>validate\<close> of \<^verbatim>\<open>Config\<close>.
\<close>

theorem get_instance_after_initialize:
  "((\<forall>r \<in> set (fst (initialize_all Config vld cs init_world)). isl r) \<longrightarrow>
      get_instance (snd (initialize_all Config vld cs init_world))
        = (Inl (RuntimeError not_initialized_message),
           snd (initialize_all Config vld cs init_world)))
   \<and> (initialize Config vld key url w = (Inr inst, w') \<longrightarrow> get_instance w' = (Inr inst, w'))"
  using initialize_all_failures [of Config vld cs init_world]
    initialize_success [of Config vld key url w inst w']
  by (auto simp: get_instance_def init_world_def)

theorem get_instance_after_initialize_witness:
  "map isl (fst (initialize_all plain_config validate [(None, Some ''https://host'')]
                  init_world)) = [True]
   \<and> get_instance (snd (initialize_all plain_config validate [(None, Some ''https://host'')]
                          init_world))
       = (Inl (RuntimeError not_initialized_message), init_world)
   \<and> isl (fst (initialize plain_config validate (Some ''k'') (Some ''https://host'') init_world))
       = False
   \<and> fst (get_instance
            (snd (initialize plain_config validate (Some ''k'') (Some ''https://host'') init_world)))
       = fst (initialize plain_config validate (Some ''k'') (Some ''https://host'') init_world)"
  using get_instance_after_initialize
    [where Config = plain_config and vld = validate and cs = "[(None, Some ''https://host'')]"
       and key = "Some ''k''" and url = "Some ''https://host''" and w = init_world
       and inst = "projr (fst (initialize plain_config validate (Some ''k'')
                                 (Some ''https://host'') init_world))"
       and w' = "snd (initialize plain_config validate (Some ''k'')
                                 (Some ''https://host'') init_world)"]
  by (simp add: initialize_def validate_def plain_config_def agentbay_init_def Let_def)

text \<open>
  C8. When the key or the URL of the configuration is missing or empty, \<^verbatim>\<open>initialize\<close>
  raises a configuration error and leaves the state as it was: no exporter is constructed,
  and if no instance was set, \<^verbatim>\<open>get_instance\<close> still fails.
\<close>

theorem invalid_config_rejected:
  assumes "api_key (Config key url) = None \<or> api_key (Config key url) = Some []
           \<or> api_url (Config key url) = None \<or> api_url (Config key url) = Some []"
  shows "\<exists>m. initialize Config validate key url w = (Inl (ConfigurationError m), w)
           \<and> exporters_built (snd (initialize Config validate key url w)) = exporters_built w
           \<and> (cls_instance w = None \<longrightarrow>
                 fst (get_instance (snd (initialize Config validate key url w)))
                   = Inl (RuntimeError not_initialized_message))"
  using assms
  by (auto simp: initialize_def validate_def get_instance_def Let_def)


theorem invalid_config_rejected_witness:
  "api_key (plain_config None (Some ''https://host'')) = None
   \<and> (\<exists>m. initialize plain_config validate None (Some ''https://host'') init_world
              = (Inl (ConfigurationError m), init_world))
   \<and> fst (get_instance (snd (initialize plain_config validate None (Some ''https://host'')
                                init_world)))
       = Inl (RuntimeError not_initialized_message)"
  using invalid_config_rejected
    [where Config = plain_config and key = None and url = "Some ''https://host''"
       and w = init_world]
  by (auto simp: plain_config_def init_world_def)

end
